theory Spec2Isabelle
  imports Complex_Main "HOL-Library.Sublist"
begin

section \<open>Python values\<close>

text \<open>
  A Python \<open>str\<close> is a sequence of Unicode code points, so it is modelled as a list of
  natural numbers; \<open>k in s\<close> on two strings is the contiguous-sublist test \<open>sublist k s\<close>.
  ASCII literals of the source are written with \<open>ascii\<close>, the Arabic literals as their code
  points.
\<close>

type_synonym pystr = "nat list"

definition ascii :: "string \<Rightarrow> pystr" where
  "ascii s = map of_char s"

text \<open>The exceptions that the request path of \<open>app.py\<close> can raise. \<open>OutsideModel\<close> is
  not one of them: it marks the one kind of input that \<open>handle_event\<close> below does not
  follow.\<close>

datatype exn =
    AttributeError | TypeError | KeyError | UnicodeEncodeError | SQLAlchemyError | OutsideModel

datatype 'a outcome = Returned 'a | Raised exn

section \<open>Data model\<close>

text \<open>A turn is the dictionary \<open>{"role": role, "content": content}\<close>.\<close>

record turn =
  role :: pystr
  content :: pystr

text \<open>The \<open>User\<close> row. A fresh \<open>User(id=uid)\<close> has no \<open>created_at\<close> and no \<open>messages\<close>
  until it is flushed.\<close>

record user =
  user_id :: pystr
  created_at :: "nat option"
  messages :: "int option"

text \<open>One entry of the \<open>quick_replies\<close> list, and the JSON payload of one outbound POST to
  the Messenger send endpoint (\<open>messaging_type\<close> is always \<open>RESPONSE\<close>).\<close>

record quick_reply =
  content_type :: pystr
  title :: pystr
  payload :: pystr

record send_request =
  recipient_id :: pystr
  message_text :: pystr
  quick_replies :: "quick_reply list option"

text \<open>
  The state the handlers read and write: the module-level dictionary \<open>user_contexts\<close>, the
  \<open>users\<close> table behind \<open>db.session\<close>, and the two outbound channels, recorded as the list
  of requests issued so far (\<open>outbox\<close> for \<open>requests.post\<close>, \<open>gpt_calls\<close> for
  \<open>openai.chat.completions.create\<close>, each entry the \<open>messages\<close> argument of one call);
  \<open>commits\<close> and \<open>selects\<close> count the calls of \<open>db.session.commit\<close> and of
  \<open>db.session.get\<close>.
\<close>

record world =
  user_contexts :: "pystr \<rightharpoonup> turn list"
  users :: "pystr \<rightharpoonup> user"
  outbox :: "send_request list"
  gpt_calls :: "turn list list"
  commits :: nat
  selects :: nat

definition init :: world where
  "init = \<lparr>user_contexts = Map.empty, users = Map.empty, outbox = [], gpt_calls = [],
           commits = 0, selects = 0\<rparr>"

section \<open>The context store\<close>

definition CONTEXT_LIMIT :: nat where
  "CONTEXT_LIMIT = 10"

text \<open>\<open>deque(maxlen=n).append(x)\<close>: the item is added on the right and, when the deque is
  then longer than \<open>maxlen\<close>, one item is discarded from the left.\<close>

definition deque_append :: "nat \<Rightarrow> 'a list \<Rightarrow> 'a \<Rightarrow> 'a list" where
  "deque_append maxlen d x = (let d' = d @ [x] in if maxlen < length d' then tl d' else d')"

definition update_context :: "pystr \<Rightarrow> pystr \<Rightarrow> pystr \<Rightarrow> world \<Rightarrow> world" where
  "update_context uid r c w =
     (let d = (case user_contexts w uid of None \<Rightarrow> [] | Some d \<Rightarrow> d)
      in w\<lparr>user_contexts :=
             (user_contexts w)(uid \<mapsto> deque_append CONTEXT_LIMIT d \<lparr>role = r, content = c\<rparr>)\<rparr>)"

text \<open>\<open>get_context\<close> returns the list built by \<open>list(...)\<close> together with the state it
  leaves behind.\<close>

definition get_context :: "pystr \<Rightarrow> world \<Rightarrow> turn list \<times> world" where
  "get_context uid w = ((case user_contexts w uid of None \<Rightarrow> [] | Some d \<Rightarrow> d), w)"

text \<open>A sequence of \<open>update_context\<close> calls \<open>(uid, role, content)\<close>, run in order, and the
  turns that the calls for one user carry.\<close>

fun append_all :: "(pystr \<times> pystr \<times> pystr) list \<Rightarrow> world \<Rightarrow> world" where
  "append_all [] w = w"
| "append_all ((u, r, c) # cs) w = append_all cs (update_context u r c w)"

definition turns_for :: "pystr \<Rightarrow> (pystr \<times> pystr \<times> pystr) list \<Rightarrow> turn list" where
  "turns_for uid cs =
     map (\<lambda>(u, r, c). \<lparr>role = r, content = c\<rparr>) (filter (\<lambda>(u, r, c). u = uid) cs)"

text \<open>The last \<open>n\<close> items of a list.\<close>

definition lastn :: "nat \<Rightarrow> 'a list \<Rightarrow> 'a list" where
  "lastn n xs = drop (length xs - n) xs"

definition context_of :: "pystr \<Rightarrow> world \<Rightarrow> turn list" where
  "context_of uid w = fst (get_context uid w)"

section \<open>JSON bodies and the dynamic operations applied to them\<close>

text \<open>
  The value that \<open>request.get_json\<close> returns: \<open>None\<close>, \<open>bool\<close>, \<open>int\<close>, \<open>float\<close>,
  \<open>str\<close>, \<open>list\<close> or \<open>dict\<close>. A \<open>dict\<close> is the list of its items in insertion order (its
  keys are distinct). Only the truth value of a number is ever inspected, so a \<open>float\<close> is
  represented by a real number; \<open>nan\<close> and the infinities behave as any non-zero float.
\<close>

datatype json =
    JNull
  | JBool bool
  | JInt int
  | JFloat real
  | JStr pystr
  | JArr "json list"
  | JObj "(pystr \<times> json) list"

text \<open>\<open>bool(v)\<close>, as \<open>if v\<close>, \<open>v or d\<close> and \<open>v and d\<close> evaluate it.\<close>

fun truthy :: "json \<Rightarrow> bool" where
  "truthy JNull = False"
| "truthy (JBool b) = b"
| "truthy (JInt i) = (i \<noteq> 0)"
| "truthy (JFloat x) = (x \<noteq> 0)"
| "truthy (JStr s) = (s \<noteq> [])"
| "truthy (JArr xs) = (xs \<noteq> [])"
| "truthy (JObj kvs) = (kvs \<noteq> [])"

text \<open>\<open>v.get(k, d)\<close>: only a \<open>dict\<close> has the method.\<close>

fun py_get :: "json \<Rightarrow> pystr \<Rightarrow> json \<Rightarrow> exn + json" where
  "py_get (JObj kvs) k d = Inr (case map_of kvs k of None \<Rightarrow> d | Some v \<Rightarrow> v)"
| "py_get _ k d = Inl AttributeError"


text \<open>\<open>k in v\<close> for a \<open>str\<close> \<open>k\<close>: key membership in a \<open>dict\<close>, substring of a \<open>str\<close>,
  an equal item of a \<open>list\<close>; anything else is not a container.\<close>

fun py_in :: "pystr \<Rightarrow> json \<Rightarrow> exn + bool" where
  "py_in k (JObj kvs) = Inr (map_of kvs k \<noteq> None)"
| "py_in k (JStr s) = Inr (sublist k s)"
| "py_in k (JArr xs) = Inr (JStr k \<in> set xs)"
| "py_in k _ = Inl TypeError"

text \<open>\<open>v[k]\<close> for a \<open>str\<close> \<open>k\<close>: a \<open>dict\<close> lookup; every other type rejects a \<open>str\<close> index.\<close>

fun py_getitem :: "json \<Rightarrow> pystr \<Rightarrow> exn + json" where
  "py_getitem (JObj kvs) k = (case map_of kvs k of None \<Rightarrow> Inl KeyError | Some v \<Rightarrow> Inr v)"
| "py_getitem _ k = Inl TypeError"

section \<open>The environment\<close>

text \<open>
  What \<open>app.py\<close> takes from outside the repository: the configured secret, the two \<open>str\<close>
  methods it calls, and the behaviour of the two external services.
  \<^item> \<open>create_completion n msgs\<close> is the outcome of the \<open>try\<close> block up to \<open>.content\<close> on the
    \<open>n\<close>-th call of the completion endpoint with \<open>messages=msgs\<close>: \<open>Some c\<close> when
    \<open>resp.choices[0].message.content\<close> is the \<open>str\<close> \<open>c\<close>, \<open>None\<close> when anything in the block
    raises. The model name and the temperature are constants of the call.
  \<^item> \<open>get_raises n uid\<close> is the exception, if any, with which the \<open>n\<close>-th
    \<open>db.session.get(User, uid)\<close> ends (the SELECT fails, or the driver rejects the key),
    \<open>commit_raises n\<close> the exception, if any, with which the \<open>n\<close>-th
    \<open>db.session.commit()\<close> ends, and \<open>utcnow n\<close> is the clock read by the column default
    at that commit.
\<close>

record env =
  VERIFY_TOKEN :: pystr
  str_lower :: "pystr \<Rightarrow> pystr"
  str_strip :: "pystr \<Rightarrow> pystr"
  create_completion :: "nat \<Rightarrow> turn list \<Rightarrow> pystr option"
  get_raises :: "nat \<Rightarrow> pystr \<Rightarrow> exn option"
  commit_raises :: "nat \<Rightarrow> exn option"
  utcnow :: "nat \<Rightarrow> nat"

section \<open>The usage counter\<close>

text \<open>\<open>log_conversation\<close> has two places where the database can fail: the SELECT behind
  \<open>db.session.get\<close> and the commit. Neither is caught. A failed commit rolls the
  transaction back, so in both cases the table keeps its rows.\<close>

definition log_conversation :: "env \<Rightarrow> pystr \<Rightarrow> world \<Rightarrow> unit outcome \<times> world" where
  "log_conversation e uid w =
     (let w0 = w\<lparr>selects := selects w + 1\<rparr>
      in case get_raises e (selects w) uid of
           Some x \<Rightarrow> (Raised x, w0)
         | None \<Rightarrow>
             (let u = (case users w uid of
                         None \<Rightarrow> \<lparr>user_id = uid, created_at = None, messages = None\<rparr>
                       | Some u \<Rightarrow> u);
                  u' = u\<lparr>messages := Some ((case messages u of None \<Rightarrow> 0 | Some m \<Rightarrow> m) + 1)\<rparr>;
                  n = commits w
              in case commit_raises e n of
                   Some x \<Rightarrow> (Raised x, w0\<lparr>commits := n + 1\<rparr>)
                 | None \<Rightarrow>
                     (Returned (),
                      w0\<lparr>users := (users w)(uid \<mapsto>
                            u'\<lparr>created_at :=
                                 (case created_at u' of
                                    None \<Rightarrow> Some (utcnow e n) | Some t \<Rightarrow> Some t)\<rparr>),
                        commits := n + 1\<rparr>)))"

text \<open>The persisted counter of a user, 0 when there is no row.\<close>

definition counter :: "world \<Rightarrow> pystr \<Rightarrow> int" where
  "counter w uid =
     (case users w uid of None \<Rightarrow> 0
      | Some u \<Rightarrow> (case messages u of None \<Rightarrow> 0 | Some m \<Rightarrow> m))"

section \<open>Sending to Messenger\<close>

text \<open>\<open>send_message\<close> issues one POST; a \<open>RequestException\<close> is caught and printed, so the
  function always returns. \<open>quick_replies\<close> enters the payload only when it is truthy.\<close>

definition send_message :: "pystr \<Rightarrow> pystr \<Rightarrow> quick_reply list option \<Rightarrow> world \<Rightarrow> world" where
  "send_message rid txt qrs w =
     w\<lparr>outbox := outbox w @
         [\<lparr>recipient_id = rid, message_text = txt,
           quick_replies = (case qrs of None \<Rightarrow> None
                            | Some q \<Rightarrow> if q = [] then None else Some q)\<rparr>]\<rparr>"

section \<open>The completion step\<close>

definition SYSTEM_PROMPT :: pystr where
  "SYSTEM_PROMPT = [1571, 1580, 1576, 32, 1576, 1573, 1610, 1580, 1575, 1586, 32, 1608, 1576,
     1571, 1587, 1604, 1608, 1576, 32, 1608, 1583, 1608, 1583, 46]"

definition FALLBACK_REPLY :: pystr where
  "FALLBACK_REPLY = [1593, 1584, 1585, 1611, 1575, 1548, 32, 1578, 1593, 1584, 1617, 1585, 32,
     1575, 1604, 1585, 1583, 1617, 32, 1581, 1575, 1604, 1610, 1611, 1575, 46]"

definition ask_gpt :: "env \<Rightarrow> pystr \<Rightarrow> pystr \<Rightarrow> world \<Rightarrow> pystr \<times> world" where
  "ask_gpt e uid user_msg w =
     (let w1 = update_context uid (ascii ''user'') user_msg w;
          (ctx, w2) = get_context uid w1;
          full_messages = \<lparr>role = ascii ''system'', content = SYSTEM_PROMPT\<rparr> # ctx;
          w3 = w2\<lparr>gpt_calls := gpt_calls w2 @ [full_messages]\<rparr>;
          bot_reply = (case create_completion e (length (gpt_calls w2)) full_messages of
                         Some c \<Rightarrow> str_strip e c
                       | None \<Rightarrow> FALLBACK_REPLY);
          w4 = update_context uid (ascii ''assistant'') bot_reply w3
      in (bot_reply, w4))"

section \<open>Dispatch of one message\<close>

definition TRIGGERS :: "pystr list" where
  "TRIGGERS =
     [[1583, 1593, 1605, 32, 1576, 1588, 1585, 1610],
      [1605, 1608, 1592, 1601],
      [1605, 1587, 1575, 1593, 1583, 1577, 32, 1581, 1602, 1610, 1602, 1610, 1577],
      [1578, 1581, 1583, 1579, 32, 1573, 1604, 1609, 32, 1588, 1582, 1589]]"

definition HUMAN_SUPPORT_NOTICE :: pystr where
  "HUMAN_SUPPORT_NOTICE = [1578, 1605, 32, 1578, 1581, 1608, 1610, 1604, 1603, 32, 1604, 1604,
     1583, 1593, 1605, 32, 1575, 1604, 1576, 1588, 1585, 1610, 1548, 32, 1610, 1585, 1580, 1609,
     32, 1575, 1604, 1575, 1606, 1578, 1592, 1575, 1585, 46]"

definition SERVICE_INFO_NOTICE :: pystr where
  "SERVICE_INFO_NOTICE = [1606, 1602, 1583, 1605, 32, 1582, 1583, 1605, 1575, 1578, 1606, 1575,
     32, 1593, 1604, 1609, 32, 1605, 1583, 1575, 1585, 32, 1575, 1604, 1587, 1575, 1593, 1577,
     46, 32, 1603, 1610, 1601, 32, 1571, 1587, 1575, 1593, 1583, 1603, 1567]"

definition qr :: "quick_reply list" where
  "qr = [\<lparr>content_type = ascii ''text'',
          title = [1583, 1593, 1605, 32, 1576, 1588, 1585, 1610],
          payload = ascii ''HUMAN_SUPPORT''\<rparr>,
         \<lparr>content_type = ascii ''text'',
          title = [1605, 1593, 1604, 1608, 1605, 1575, 1578, 32, 1593, 1606, 32, 1575, 1604,
                   1582, 1583, 1605, 1575, 1578],
          payload = ascii ''SERVICE_INFO''\<rparr>]"

definition is_trigger :: "env \<Rightarrow> pystr \<Rightarrow> bool" where
  "is_trigger e txt = list_ex (\<lambda>k. sublist k (str_lower e txt)) TRIGGERS"

definition process_message :: "env \<Rightarrow> pystr \<Rightarrow> pystr \<Rightarrow> world \<Rightarrow> unit outcome \<times> world" where
  "process_message e uid txt w =
     (if is_trigger e txt then (Returned (), send_message uid HUMAN_SUPPORT_NOTICE None w)
      else
        (let (reply, w1) = ask_gpt e uid txt w
         in case log_conversation e uid w1 of
              (Raised x, w2) \<Rightarrow> (Raised x, w2)
            | (Returned _, w2) \<Rightarrow> (Returned (), send_message uid reply (Some qr) w2)))"

section \<open>The webhook\<close>

definition verify_webhook :: "env \<Rightarrow> (pystr \<rightharpoonup> pystr) \<Rightarrow> pystr \<times> nat" where
  "verify_webhook e args =
     (if args (ascii ''hub.verify_token'') = Some (VERIFY_TOKEN e)
      then ((case args (ascii ''hub.challenge'') of None \<Rightarrow> [] | Some c \<Rightarrow> c), 200)
      else (ascii ''Invalid token'', 403))"

text \<open>
  \<open>or_raise r w k\<close> continues with \<open>k\<close> on the value of a dynamic operation, or leaves
  with its exception in the state \<open>w\<close> reached so far.

  The body of the inner loop, for one \<open>ev\<close>. \<open>send_message\<close> and \<open>process_message\<close> are
  declared for a \<open>str\<close> user id. A truthy \<open>sender.id\<close> of another type (a number, \<open>true\<close>, a
  list, an object) is not followed further: what the dictionary and the database do with
  such a key is not part of this development, and the event ends in \<open>Raised OutsideModel\<close>,
  which is no Python exception. A \<open>text\<close> that is not a \<open>str\<close> raises at \<open>text.lower()\<close>, the
  first thing \<open>process_message\<close> evaluates.
\<close>

definition or_raise :: "exn + 'a \<Rightarrow> world \<Rightarrow> ('a \<Rightarrow> 'b outcome \<times> world) \<Rightarrow> 'b outcome \<times> world" where
  "or_raise r w k = (case r of Inl x \<Rightarrow> (Raised x, w) | Inr v \<Rightarrow> k v)"

definition handle_event :: "env \<Rightarrow> json \<Rightarrow> world \<Rightarrow> unit outcome \<times> world" where
  "handle_event e ev w =
     or_raise (py_get ev (ascii ''sender'') (JObj [])) w (\<lambda>sender.
     or_raise (py_get sender (ascii ''id'') JNull) w (\<lambda>uid.
     or_raise (py_get ev (ascii ''message'') (JObj [])) w (\<lambda>msg.
     if \<not> truthy uid then (Returned (), w) else
     or_raise (py_in (ascii ''text'') msg) w (\<lambda>has_text.
     if \<not> has_text then (Returned (), w) else
     or_raise (py_get msg (ascii ''quick_reply'') JNull) w (\<lambda>q.
     if truthy q then
       or_raise (py_getitem msg (ascii ''quick_reply'')) w (\<lambda>q'.
       or_raise (py_getitem q' (ascii ''payload'')) w (\<lambda>p.
       if p = JStr (ascii ''HUMAN_SUPPORT'') then
         (case uid of
            JStr u \<Rightarrow> (Returned (), send_message u HUMAN_SUPPORT_NOTICE None w)
          | _ \<Rightarrow> (Raised OutsideModel, w))
       else if p = JStr (ascii ''SERVICE_INFO'') then
         (case uid of
            JStr u \<Rightarrow> (Returned (), send_message u SERVICE_INFO_NOTICE None w)
          | _ \<Rightarrow> (Raised OutsideModel, w))
       else (Returned (), w)))
     else
       or_raise (py_getitem msg (ascii ''text'')) w (\<lambda>t.
       (case t of
          JStr txt \<Rightarrow>
            (case uid of
               JStr u \<Rightarrow> process_message e u txt w
             | _ \<Rightarrow> (Raised OutsideModel, w))
        | _ \<Rightarrow> (Raised AttributeError, w))))))))"






section \<open>Environments and requests for the examples\<close>

text \<open>
  \<open>env_up\<close>: the completion endpoint answers \<open>"ok"\<close> and the database never fails;
  \<open>env_gpt_down\<close>: every completion call fails; \<open>env_db_down\<close>: every commit raises;
  \<open>env_gpt_db_down\<close>: both; \<open>env_key_rejected\<close>: \<open>db.session.get\<close> raises for a key that
  holds the lone surrogate U+D800, which the SQLite driver cannot encode.
  The texts of the examples have no cased letters and no outer white space, so \<open>lower\<close>
  and \<open>strip\<close> return them as they are.
\<close>

definition env_up :: env where
  "env_up = \<lparr>VERIFY_TOKEN = ascii ''s3cret'', str_lower = (\<lambda>s. s), str_strip = (\<lambda>s. s),
              create_completion = (\<lambda>n msgs. Some (ascii ''ok'')),
              get_raises = (\<lambda>n uid. None), commit_raises = (\<lambda>n. None),
              utcnow = (\<lambda>n. 1000 + n)\<rparr>"

definition env_gpt_down :: env where
  "env_gpt_down = env_up\<lparr>create_completion := (\<lambda>n msgs. None)\<rparr>"


definition env_gpt_db_down :: env where
  "env_gpt_db_down = env_gpt_down\<lparr>commit_raises := (\<lambda>n. Some SQLAlchemyError)\<rparr>"


text \<open>One event with the given sender id and message object, and the envelope around a
  list of events.\<close>

definition event :: "pystr \<Rightarrow> (pystr \<times> json) list \<Rightarrow> json" where
  "event uid msg =
     JObj [(ascii ''sender'', JObj [(ascii ''id'', JStr uid)]), (ascii ''message'', JObj msg)]"


section \<open>The documented request shape\<close>







text \<open>The part of the loop body below the two assignments, as a function of \<open>uid\<close> and
  \<open>msg\<close>; \<open>handle_event\<close> above contains the same text.\<close>

definition guarded_body :: "env \<Rightarrow> json \<Rightarrow> json \<Rightarrow> world \<Rightarrow> unit outcome \<times> world" where
  "guarded_body e uid msg w =
     (if \<not> truthy uid then (Returned (), w) else
      or_raise (py_in (ascii ''text'') msg) w (\<lambda>has_text.
      if \<not> has_text then (Returned (), w) else
      or_raise (py_get msg (ascii ''quick_reply'') JNull) w (\<lambda>q.
      if truthy q then
        or_raise (py_getitem msg (ascii ''quick_reply'')) w (\<lambda>q'.
        or_raise (py_getitem q' (ascii ''payload'')) w (\<lambda>p.
        if p = JStr (ascii ''HUMAN_SUPPORT'') then
          (case uid of
             JStr u \<Rightarrow> (Returned (), send_message u HUMAN_SUPPORT_NOTICE None w)
           | _ \<Rightarrow> (Raised OutsideModel, w))
        else if p = JStr (ascii ''SERVICE_INFO'') then
          (case uid of
             JStr u \<Rightarrow> (Returned (), send_message u SERVICE_INFO_NOTICE None w)
           | _ \<Rightarrow> (Raised OutsideModel, w))
        else (Returned (), w)))
      else
        or_raise (py_getitem msg (ascii ''text'')) w (\<lambda>t.
        (case t of
           JStr txt \<Rightarrow>
             (case uid of
                JStr u \<Rightarrow> process_message e u txt w
              | _ \<Rightarrow> (Raised OutsideModel, w))
         | _ \<Rightarrow> (Raised AttributeError, w))))))"

section \<open>Properties of the context store\<close>

lemma length_lastn: "length (lastn n xs) = min n (length xs)"
  by (simp add: lastn_def)

lemma lastn_short: "length xs \<le> n \<Longrightarrow> lastn n xs = xs"
  by (simp add: lastn_def)

lemma lastn_append_lastn: "lastn n (lastn n xs @ ys) = lastn n (xs @ ys)"
proof (cases "length xs \<le> n")
  case True
  then show ?thesis by (simp add: lastn_short)
next
  case False
  then have "lastn n (lastn n xs @ ys) = drop (length ys) (drop (length xs - n) xs @ ys)"
    by (simp add: lastn_def)
  also have "\<dots> = drop (length xs + length ys - n) (xs @ ys)"
    using False by (simp add: add.commute)
  finally show ?thesis by (simp add: lastn_def)
qed

lemma deque_append_lastn: "length d \<le> n \<Longrightarrow> deque_append n d x = lastn n (d @ [x])"
  by (cases d) (auto simp: deque_append_def lastn_def Let_def Suc_diff_le)

lemma deque_append_fifo:
  "length d \<le> n \<Longrightarrow> 0 < n \<Longrightarrow>
   deque_append n d x = (if length d < n then d @ [x] else tl d @ [x])"
  by (cases d) (auto simp: deque_append_def Let_def)

lemma length_deque_append: "length d \<le> n \<Longrightarrow> length (deque_append n d x) \<le> n"
  by (auto simp: deque_append_def Let_def)

lemma get_context_update_context:
  "fst (get_context u (update_context v r c w)) =
     (if v = u then deque_append CONTEXT_LIMIT (fst (get_context u w)) \<lparr>role = r, content = c\<rparr>
      else fst (get_context u w))"
  by (simp add: get_context_def update_context_def Let_def)

lemma turns_for_Cons:
  "turns_for u ((v, r, c) # cs) =
     (if v = u then \<lparr>role = r, content = c\<rparr> # turns_for u cs else turns_for u cs)"
  by (simp add: turns_for_def)

lemma get_context_append_all:
  "length (fst (get_context u w)) \<le> CONTEXT_LIMIT \<Longrightarrow>
   fst (get_context u (append_all cs w)) =
     lastn CONTEXT_LIMIT (fst (get_context u w) @ turns_for u cs)"
proof (induction cs arbitrary: w)
  case Nil
  then show ?case by (simp add: turns_for_def lastn_short)
next
  case (Cons call cs)
  obtain v r c where call: "call = (v, r, c)" by (cases call)
  let ?w = "update_context v r c w"
  have len: "length (fst (get_context u ?w)) \<le> CONTEXT_LIMIT"
    using Cons.prems by (simp add: get_context_update_context length_deque_append)
  have "fst (get_context u (append_all (call # cs) w)) =
          lastn CONTEXT_LIMIT (fst (get_context u ?w) @ turns_for u cs)"
    using Cons.IH [OF len] by (simp add: call)
  also have "\<dots> = lastn CONTEXT_LIMIT (fst (get_context u w) @ turns_for u (call # cs))"
  proof (cases "v = u")
    case True
    have "fst (get_context u ?w) =
            lastn CONTEXT_LIMIT (fst (get_context u w) @ [\<lparr>role = r, content = c\<rparr>])"
      using Cons.prems True by (simp add: get_context_update_context deque_append_lastn)
    then show ?thesis
      using True lastn_append_lastn [of CONTEXT_LIMIT
          "fst (get_context u w) @ [\<lparr>role = r, content = c\<rparr>]" "turns_for u cs"]
      by (simp add: call turns_for_Cons)
  next
    case False
    then show ?thesis by (simp add: call turns_for_Cons get_context_update_context)
  qed
  finally show ?case .
qed

lemma get_context_init: "fst (get_context u init) = []"
  by (simp add: get_context_def init_def)


lemma context_of_append_all_init:
  "context_of u (append_all cs init) = lastn CONTEXT_LIMIT (turns_for u cs)"
  using get_context_append_all [of u init cs]
  by (simp add: context_of_def get_context_init)

text \<open>
  Claim C1. Whatever sequence of \<open>update_context\<close> calls has run since start-up, for any
  users in any interleaving, the context stored for a user holds at most 10 turns and is
  exactly the last 10 of the turns appended for that user, in the order of the calls (all
  of them while there are at most 10); after more than 10 appends it holds exactly 10. One
  more append puts the new turn at the end, and drops the oldest turn when 10 are stored.
\<close>

theorem context_keeps_last_ten:
  "length (context_of u (append_all cs init)) \<le> 10 \<and>
   context_of u (append_all cs init) = lastn 10 (turns_for u cs) \<and>
   (10 < length (turns_for u cs) \<longrightarrow> length (context_of u (append_all cs init)) = 10) \<and>
   context_of u (update_context u r c (append_all cs init)) =
     (if length (context_of u (append_all cs init)) < 10
      then context_of u (append_all cs init) @ [\<lparr>role = r, content = c\<rparr>]
      else tl (context_of u (append_all cs init)) @ [\<lparr>role = r, content = c\<rparr>])"
proof -
  let ?d = "context_of u (append_all cs init)"
  have eq: "?d = lastn 10 (turns_for u cs)"
    using context_of_append_all_init [of u cs] by (simp add: CONTEXT_LIMIT_def)
  have len: "length ?d \<le> 10"
    by (simp add: eq length_lastn)
  have full: "10 < length (turns_for u cs) \<longrightarrow> length ?d = 10"
    by (simp add: eq length_lastn)
  have "context_of u (update_context u r c (append_all cs init)) =
          deque_append 10 ?d \<lparr>role = r, content = c\<rparr>"
    using get_context_update_context [of u u r c "append_all cs init"]
    by (simp add: context_of_def CONTEXT_LIMIT_def)
  also have "\<dots> = (if length ?d < 10 then ?d @ [\<lparr>role = r, content = c\<rparr>]
                    else tl ?d @ [\<lparr>role = r, content = c\<rparr>])"
    using deque_append_fifo [OF len] by simp
  finally show ?thesis
    using eq len full by blast
qed

text \<open>Twelve appends for one user, with an append for another user in between: the first
  two turns are gone, the other ten are stored in order.\<close>

theorem context_keeps_last_ten_witness:
  "10 < length (turns_for [117]
          [([117], [1], [1]), ([117], [2], [2]), ([117], [1], [3]), ([117], [2], [4]),
           ([117], [1], [5]), ([118], [1], [0]), ([117], [2], [6]), ([117], [1], [7]),
           ([117], [2], [8]), ([117], [1], [9]), ([117], [2], [10]), ([117], [1], [11]),
           ([117], [2], [12])]) \<and>
   context_of [117] (append_all
          [([117], [1], [1]), ([117], [2], [2]), ([117], [1], [3]), ([117], [2], [4]),
           ([117], [1], [5]), ([118], [1], [0]), ([117], [2], [6]), ([117], [1], [7]),
           ([117], [2], [8]), ([117], [1], [9]), ([117], [2], [10]), ([117], [1], [11]),
           ([117], [2], [12])] init) =
     [\<lparr>role = [1], content = [3]\<rparr>, \<lparr>role = [2], content = [4]\<rparr>, \<lparr>role = [1], content = [5]\<rparr>,
      \<lparr>role = [2], content = [6]\<rparr>, \<lparr>role = [1], content = [7]\<rparr>, \<lparr>role = [2], content = [8]\<rparr>,
      \<lparr>role = [1], content = [9]\<rparr>, \<lparr>role = [2], content = [10]\<rparr>,
      \<lparr>role = [1], content = [11]\<rparr>, \<lparr>role = [2], content = [12]\<rparr>] \<and>
   length (context_of [117] (append_all
          [([117], [1], [1]), ([117], [2], [2]), ([117], [1], [3]), ([117], [2], [4]),
           ([117], [1], [5]), ([118], [1], [0]), ([117], [2], [6]), ([117], [1], [7]),
           ([117], [2], [8]), ([117], [1], [9]), ([117], [2], [10]), ([117], [1], [11]),
           ([117], [2], [12])] init)) = 10"
  using context_keeps_last_ten [of "[117]"
          "[([117], [1], [1]), ([117], [2], [2]), ([117], [1], [3]), ([117], [2], [4]),
            ([117], [1], [5]), ([118], [1], [0]), ([117], [2], [6]), ([117], [1], [7]),
            ([117], [2], [8]), ([117], [1], [9]), ([117], [2], [10]), ([117], [1], [11]),
            ([117], [2], [12])]" "[]" "[]"]
  by (simp add: turns_for_def lastn_def)

text \<open>
  Claim C2. For a user none of the calls run since start-up was for, \<open>get_context\<close> returns
  the empty list. For every user and every state it returns the turns stored for that user,
  in their order (the empty list when the dictionary has no entry), and the state it leaves
  is the state it was called in.
\<close>

theorem get_context_snapshot:
  "(turns_for u cs = [] \<longrightarrow> fst (get_context u (append_all cs init)) = []) \<and>
   (user_contexts w u = None \<longrightarrow> fst (get_context u w) = []) \<and>
   (\<forall>d. user_contexts w u = Some d \<longrightarrow> fst (get_context u w) = d) \<and>
   snd (get_context u w) = w"
proof -
  have "fst (get_context u (append_all cs init)) = lastn CONTEXT_LIMIT (turns_for u cs)"
    using context_of_append_all_init [of u cs] by (simp add: context_of_def)
  then have "turns_for u cs = [] \<longrightarrow> fst (get_context u (append_all cs init)) = []"
    by (simp add: lastn_def)
  then show ?thesis
    by (simp add: get_context_def)
qed

theorem get_context_snapshot_witness:
  "turns_for [118] [([117], [1], [1])] = [] \<and>
   user_contexts (append_all [([117], [1], [1])] init) [118] = None \<and>
   fst (get_context [118] (append_all [([117], [1], [1])] init)) = [] \<and>
   user_contexts (append_all [([117], [1], [1])] init) [117] = Some [\<lparr>role = [1], content = [1]\<rparr>] \<and>
   fst (get_context [117] (append_all [([117], [1], [1])] init)) = [\<lparr>role = [1], content = [1]\<rparr>] \<and>
   snd (get_context [117] (append_all [([117], [1], [1])] init)) =
     append_all [([117], [1], [1])] init"
  using get_context_snapshot [of "[118]" "[([117], [1], [1])]" "append_all [([117], [1], [1])] init"]
        get_context_snapshot [of "[117]" "[([117], [1], [1])]" "append_all [([117], [1], [1])] init"]
  by (simp add: turns_for_def update_context_def init_def deque_append_def CONTEXT_LIMIT_def)

section \<open>Properties of the dispatcher\<close>

lemma ask_gpt_reply:
  "fst (ask_gpt e u m w) =
     (case create_completion e (length (gpt_calls w))
             (\<lparr>role = ascii ''system'', content = SYSTEM_PROMPT\<rparr> #
              context_of u (update_context u (ascii ''user'') m w)) of
        Some c \<Rightarrow> str_strip e c | None \<Rightarrow> FALLBACK_REPLY)"
  by (simp add: ask_gpt_def Let_def get_context_def context_of_def update_context_def
           split: option.splits)

lemma ask_gpt_world:
  "snd (ask_gpt e u m w) =
     update_context u (ascii ''assistant'') (fst (ask_gpt e u m w))
       ((update_context u (ascii ''user'') m w)
          \<lparr>gpt_calls := gpt_calls w @
             [\<lparr>role = ascii ''system'', content = SYSTEM_PROMPT\<rparr> #
              context_of u (update_context u (ascii ''user'') m w)]\<rparr>)"
  by (simp add: ask_gpt_def Let_def get_context_def context_of_def update_context_def
           split: option.splits)

lemma update_context_frame:
  "users (update_context u r c w) = users w"
  "outbox (update_context u r c w) = outbox w"
  "gpt_calls (update_context u r c w) = gpt_calls w"
  "commits (update_context u r c w) = commits w"
  "selects (update_context u r c w) = selects w"
  by (simp_all add: update_context_def Let_def)

lemma ask_gpt_frame:
  "users (snd (ask_gpt e u m w)) = users w"
  "outbox (snd (ask_gpt e u m w)) = outbox w"
  "commits (snd (ask_gpt e u m w)) = commits w"
  "selects (snd (ask_gpt e u m w)) = selects w"
  by (simp_all add: ask_gpt_world update_context_frame)

lemma is_trigger_iff: "is_trigger e txt \<longleftrightarrow> (\<exists>k \<in> set TRIGGERS. sublist k (str_lower e txt))"
  by (simp add: is_trigger_def list_ex_iff)

lemma send_message_frame:
  "user_contexts (send_message u t q w) = user_contexts w"
  "users (send_message u t q w) = users w"
  "gpt_calls (send_message u t q w) = gpt_calls w"
  "commits (send_message u t q w) = commits w"
  "selects (send_message u t q w) = selects w"
  by (simp_all add: send_message_def)

lemma log_conversation_ok:
  assumes "get_raises e (selects w) u = None" and "commit_raises e (commits w) = None"
  shows "log_conversation e u w =
     (Returned (),
      w\<lparr>users := (users w)(u \<mapsto>
           (case users w u of
              None \<Rightarrow> \<lparr>user_id = u, created_at = Some (utcnow e (commits w)), messages = Some 1\<rparr>
            | Some r \<Rightarrow> r\<lparr>messages := Some ((case messages r of None \<Rightarrow> 0 | Some m \<Rightarrow> m) + 1),
                          created_at := (case created_at r of None \<Rightarrow> Some (utcnow e (commits w))
                                          | Some t \<Rightarrow> Some t)\<rparr>)),
        commits := commits w + 1, selects := selects w + 1\<rparr>)"
  using assms by (simp add: log_conversation_def Let_def split: option.splits)

lemma log_conversation_get_raises:
  "get_raises e (selects w) u = Some x \<Longrightarrow>
   log_conversation e u w = (Raised x, w\<lparr>selects := selects w + 1\<rparr>)"
  by (simp add: log_conversation_def Let_def)

lemma log_conversation_commit_raises:
  "get_raises e (selects w) u = None \<Longrightarrow> commit_raises e (commits w) = Some x \<Longrightarrow>
   log_conversation e u w = (Raised x, w\<lparr>commits := commits w + 1, selects := selects w + 1\<rparr>)"
  by (simp add: log_conversation_def Let_def)

lemma log_conversation_cases:
  obtains (ok) "get_raises e (selects w) u = None" "commit_raises e (commits w) = None"
    "fst (log_conversation e u w) = Returned ()"
  | (get) x where "get_raises e (selects w) u = Some x"
    "log_conversation e u w = (Raised x, w\<lparr>selects := selects w + 1\<rparr>)"
  | (commit) x where "get_raises e (selects w) u = None" "commit_raises e (commits w) = Some x"
    "log_conversation e u w = (Raised x, w\<lparr>commits := commits w + 1, selects := selects w + 1\<rparr>)"
proof (cases "get_raises e (selects w) u")
  case (Some x)
  then show ?thesis using get log_conversation_get_raises by blast
next
  case None
  show ?thesis
  proof (cases "commit_raises e (commits w)")
    case (Some x)
    then show ?thesis using commit None log_conversation_commit_raises by blast
  next
    case n: None
    then show ?thesis using ok None log_conversation_ok [OF None n] by simp
  qed
qed

lemma log_conversation_Returned_iff:
  "fst (log_conversation e u w) = Returned () \<longleftrightarrow>
     get_raises e (selects w) u = None \<and> commit_raises e (commits w) = None"
  by (cases e u w rule: log_conversation_cases) simp_all

lemma log_conversation_Raised_frame:
  assumes "fst (log_conversation e u w) = Raised x"
  shows "users (snd (log_conversation e u w)) = users w"
  using assms by (cases e u w rule: log_conversation_cases) simp_all

lemma log_conversation_frame:
  "outbox (snd (log_conversation e u w)) = outbox w"
  "gpt_calls (snd (log_conversation e u w)) = gpt_calls w"
  "user_contexts (snd (log_conversation e u w)) = user_contexts w"
  by (cases e u w rule: log_conversation_cases; simp add: log_conversation_ok)+

lemma counter_log_conversation:
  "fst (log_conversation e u w) = Returned () \<Longrightarrow>
   counter (snd (log_conversation e u w)) v = (if v = u then counter w u + 1 else counter w v)"
  by (simp add: log_conversation_Returned_iff log_conversation_ok counter_def
           split: option.splits)

lemma log_conversation_same_tables:
  assumes "users w' = users w" and "selects w' = selects w" and "commits w' = commits w"
  shows "fst (log_conversation e u w') = fst (log_conversation e u w)"
    and "users (snd (log_conversation e u w')) = users (snd (log_conversation e u w))"
  using assms
  by (simp_all add: log_conversation_def Let_def split: option.splits)

lemma process_message_normal:
  "\<not> is_trigger e txt \<Longrightarrow>
   process_message e u txt w =
     (case log_conversation e u (snd (ask_gpt e u txt w)) of
        (Raised x, w2) \<Rightarrow> (Raised x, w2)
      | (Returned _, w2) \<Rightarrow>
          (Returned (), send_message u (fst (ask_gpt e u txt w)) (Some qr) w2))"
  by (simp add: process_message_def case_prod_beta)

lemma process_message_ok:
  assumes "\<not> is_trigger e txt"
    and "fst (log_conversation e u (snd (ask_gpt e u txt w))) = Returned ()"
  shows "process_message e u txt w =
           (Returned (),
            send_message u (fst (ask_gpt e u txt w)) (Some qr)
              (snd (log_conversation e u (snd (ask_gpt e u txt w)))))"
  using assms(2)
  by (cases "log_conversation e u (snd (ask_gpt e u txt w))")
     (simp add: process_message_normal [OF assms(1)])

lemma process_message_raises:
  assumes "\<not> is_trigger e txt"
    and "fst (log_conversation e u (snd (ask_gpt e u txt w))) = Raised x"
  shows "process_message e u txt w =
           (Raised x, snd (log_conversation e u (snd (ask_gpt e u txt w))))"
  using assms(2)
  by (cases "log_conversation e u (snd (ask_gpt e u txt w))")
     (simp add: process_message_normal [OF assms(1)])

lemma qr_nonempty: "qr \<noteq> []"
  by (simp add: qr_def)

text \<open>
  Claim C3. When the lower-cased text contains one of the four trigger phrases as a
  substring, \<open>process_message\<close> issues exactly one send, the human-support notice without
  quick replies, and returns: no completion call is made, the context store is as before,
  and the \<open>users\<close> table (so every counter) is as before.
\<close>

theorem trigger_sends_notice_only:
  assumes "\<exists>k \<in> set TRIGGERS. sublist k (str_lower e txt)"
  shows "process_message e uid txt w =
           (Returned (),
            w\<lparr>outbox := outbox w @
                 [\<lparr>recipient_id = uid, message_text = HUMAN_SUPPORT_NOTICE,
                   quick_replies = None\<rparr>]\<rparr>) \<and>
         gpt_calls (snd (process_message e uid txt w)) = gpt_calls w \<and>
         user_contexts (snd (process_message e uid txt w)) = user_contexts w \<and>
         users (snd (process_message e uid txt w)) = users w \<and>
         counter (snd (process_message e uid txt w)) uid = counter w uid"
  using assms by (simp add: process_message_def is_trigger_iff send_message_def counter_def)

text \<open>The second trigger phrase in the middle of a text, sent by user \<open>u\<close> at start-up.\<close>

theorem trigger_sends_notice_only_witness:
  "(\<exists>k \<in> set TRIGGERS. sublist k (str_lower env_up [65, 32, 1605, 1608, 1592, 1601, 33])) \<and>
   process_message env_up [117] [65, 32, 1605, 1608, 1592, 1601, 33] init =
     (Returned (),
      init\<lparr>outbox := [\<lparr>recipient_id = [117], message_text = HUMAN_SUPPORT_NOTICE,
                        quick_replies = None\<rparr>]\<rparr>) \<and>
   gpt_calls (snd (process_message env_up [117] [65, 32, 1605, 1608, 1592, 1601, 33] init)) = []"
proof -
  have h: "\<exists>k \<in> set TRIGGERS. sublist k (str_lower env_up [65, 32, 1605, 1608, 1592, 1601, 33])"
    by (simp add: TRIGGERS_def env_up_def sublist_code)
  show ?thesis
    using h trigger_sends_notice_only [OF h, of "[117]" init] by (simp add: init_def)
qed

text \<open>
  Claim C5, as amended. For a text without trigger phrase whose completion call fails,
  \<open>ask_gpt\<close> returns the fixed fallback string (it has no way to raise). When the
  \<open>log_conversation\<close> of this dispatch returns, which it does exactly when its SELECT and
  its commit succeed, \<open>process_message\<close> returns normally, has sent exactly one message,
  the fallback string with the two quick replies, and has raised the counter of the user
  by one. When that \<open>log_conversation\<close> raises, \<open>process_message\<close> raises the same
  exception, and has sent nothing and changed no row.
\<close>

theorem completion_failure_absorbed:
  assumes "\<not> (\<exists>k \<in> set TRIGGERS. sublist k (str_lower e txt))"
    and "create_completion e (length (gpt_calls w))
           (\<lparr>role = ascii ''system'', content = SYSTEM_PROMPT\<rparr> #
            context_of uid (update_context uid (ascii ''user'') txt w)) = None"
  shows "fst (ask_gpt e uid txt w) = FALLBACK_REPLY \<and>
         (fst (log_conversation e uid (snd (ask_gpt e uid txt w))) = Returned () \<longleftrightarrow>
            get_raises e (selects w) uid = None \<and> commit_raises e (commits w) = None) \<and>
         (fst (log_conversation e uid (snd (ask_gpt e uid txt w))) = Returned () \<longrightarrow>
            fst (process_message e uid txt w) = Returned () \<and>
            outbox (snd (process_message e uid txt w)) =
              outbox w @ [\<lparr>recipient_id = uid, message_text = FALLBACK_REPLY,
                           quick_replies = Some qr\<rparr>] \<and>
            counter (snd (process_message e uid txt w)) uid = counter w uid + 1) \<and>
         (\<forall>x. fst (log_conversation e uid (snd (ask_gpt e uid txt w))) = Raised x \<longrightarrow>
            fst (process_message e uid txt w) = Raised x \<and>
            outbox (snd (process_message e uid txt w)) = outbox w \<and>
            users (snd (process_message e uid txt w)) = users w)"
proof -
  have nt: "\<not> is_trigger e txt"
    using assms(1) by (simp add: is_trigger_iff)
  let ?w1 = "snd (ask_gpt e uid txt w)"
  have reply: "fst (ask_gpt e uid txt w) = FALLBACK_REPLY"
    using assms(2) by (simp add: ask_gpt_reply)
  have good: "fst (process_message e uid txt w) = Returned () \<and>
        outbox (snd (process_message e uid txt w)) =
          outbox w @ [\<lparr>recipient_id = uid, message_text = FALLBACK_REPLY,
                       quick_replies = Some qr\<rparr>] \<and>
        counter (snd (process_message e uid txt w)) uid = counter w uid + 1"
    if ok: "fst (log_conversation e uid ?w1) = Returned ()"
  proof -
    have pm: "process_message e uid txt w =
                (Returned (), send_message uid FALLBACK_REPLY (Some qr)
                                (snd (log_conversation e uid ?w1)))"
      using process_message_ok [OF nt ok] reply by simp
    have out: "outbox (snd (log_conversation e uid ?w1)) = outbox w"
      by (simp add: log_conversation_frame ask_gpt_frame)
    have cnt: "counter (snd (log_conversation e uid ?w1)) uid = counter w uid + 1"
      using counter_log_conversation [OF ok, of uid]
      by (simp add: counter_def ask_gpt_frame)
    show ?thesis
      using out cnt
      by (simp add: pm send_message_def qr_nonempty counter_def)
  qed
  have bad: "fst (process_message e uid txt w) = Raised x \<and>
        outbox (snd (process_message e uid txt w)) = outbox w \<and>
        users (snd (process_message e uid txt w)) = users w"
    if r: "fst (log_conversation e uid ?w1) = Raised x" for x
    using log_conversation_Raised_frame [OF r]
    by (simp add: process_message_raises [OF nt r] log_conversation_frame ask_gpt_frame)
  have iff: "fst (log_conversation e uid ?w1) = Returned () \<longleftrightarrow>
               get_raises e (selects w) uid = None \<and> commit_raises e (commits w) = None"
    by (simp add: log_conversation_Returned_iff ask_gpt_frame)
  from reply iff good bad show ?thesis by blast
qed

text \<open>User \<open>u\<close> writes \<open>hi\<close> at start-up while every completion call fails: with the
  database up the fallback is sent and counted, with every commit failing it is not.\<close>

theorem completion_failure_absorbed_witness:
  "\<not> (\<exists>k \<in> set TRIGGERS. sublist k (str_lower env_gpt_down (ascii ''hi''))) \<and>
   create_completion env_gpt_down (length (gpt_calls init))
     (\<lparr>role = ascii ''system'', content = SYSTEM_PROMPT\<rparr> #
      context_of [117] (update_context [117] (ascii ''user'') (ascii ''hi'') init)) = None \<and>
   fst (log_conversation env_gpt_down [117]
          (snd (ask_gpt env_gpt_down [117] (ascii ''hi'') init))) = Returned () \<and>
   fst (ask_gpt env_gpt_down [117] (ascii ''hi'') init) = FALLBACK_REPLY \<and>
   fst (process_message env_gpt_down [117] (ascii ''hi'') init) = Returned () \<and>
   outbox (snd (process_message env_gpt_down [117] (ascii ''hi'') init)) =
     [\<lparr>recipient_id = [117], message_text = FALLBACK_REPLY, quick_replies = Some qr\<rparr>] \<and>
   counter (snd (process_message env_gpt_down [117] (ascii ''hi'') init)) [117] = 1 \<and>
   fst (log_conversation env_gpt_db_down [117]
          (snd (ask_gpt env_gpt_db_down [117] (ascii ''hi'') init))) = Raised SQLAlchemyError \<and>
   fst (process_message env_gpt_db_down [117] (ascii ''hi'') init) = Raised SQLAlchemyError \<and>
   outbox (snd (process_message env_gpt_db_down [117] (ascii ''hi'') init)) = [] \<and>
   users (snd (process_message env_gpt_db_down [117] (ascii ''hi'') init)) [117] = None"
proof -
  have h1: "\<not> (\<exists>k \<in> set TRIGGERS. sublist k (str_lower env_gpt_down (ascii ''hi'')))"
    by (simp add: TRIGGERS_def env_gpt_down_def env_up_def ascii_def sublist_code)
  have h2: "create_completion env_gpt_down (length (gpt_calls init))
     (\<lparr>role = ascii ''system'', content = SYSTEM_PROMPT\<rparr> #
      context_of [117] (update_context [117] (ascii ''user'') (ascii ''hi'') init)) = None"
    by (simp add: env_gpt_down_def env_up_def)
  have h3: "fst (log_conversation env_gpt_down [117]
              (snd (ask_gpt env_gpt_down [117] (ascii ''hi'') init))) = Returned ()"
    by (simp add: log_conversation_Returned_iff env_gpt_down_def env_up_def)
  have k1: "\<not> (\<exists>k \<in> set TRIGGERS. sublist k (str_lower env_gpt_db_down (ascii ''hi'')))"
    by (simp add: TRIGGERS_def env_gpt_db_down_def env_gpt_down_def env_up_def ascii_def
          sublist_code)
  have k2: "create_completion env_gpt_db_down (length (gpt_calls init))
     (\<lparr>role = ascii ''system'', content = SYSTEM_PROMPT\<rparr> #
      context_of [117] (update_context [117] (ascii ''user'') (ascii ''hi'') init)) = None"
    by (simp add: env_gpt_db_down_def env_gpt_down_def env_up_def)
  have k3: "fst (log_conversation env_gpt_db_down [117]
              (snd (ask_gpt env_gpt_db_down [117] (ascii ''hi'') init))) = Raised SQLAlchemyError"
    by (simp add: log_conversation_commit_raises env_gpt_db_down_def env_gpt_down_def
          env_up_def)
  show ?thesis
    using h1 h2 h3 k3 completion_failure_absorbed [OF h1 h2]
      completion_failure_absorbed [OF k1 k2]
    by (simp add: init_def counter_def)
qed

text \<open>The claim as stated, that the reply is sent, the counter incremented and no error
  propagated whenever the completion call fails, fails when the commit of the counter
  fails too: \<open>process_message\<close> raises, nothing has been sent and no row exists.\<close>

theorem completion_failure_absorbed_counterexample:
  "\<not> is_trigger env_gpt_db_down (ascii ''hi'') \<and>
   create_completion env_gpt_db_down (length (gpt_calls init))
     (\<lparr>role = ascii ''system'', content = SYSTEM_PROMPT\<rparr> #
      context_of [117] (update_context [117] (ascii ''user'') (ascii ''hi'') init)) = None \<and>
   fst (ask_gpt env_gpt_db_down [117] (ascii ''hi'') init) = FALLBACK_REPLY \<and>
   fst (process_message env_gpt_db_down [117] (ascii ''hi'') init) = Raised SQLAlchemyError \<and>
   outbox (snd (process_message env_gpt_db_down [117] (ascii ''hi'') init)) = [] \<and>
   counter (snd (process_message env_gpt_db_down [117] (ascii ''hi'') init)) [117] = 0"
proof -
  have nt: "\<not> is_trigger env_gpt_db_down (ascii ''hi'')"
    by (simp add: is_trigger_iff TRIGGERS_def env_gpt_db_down_def env_gpt_down_def env_up_def
          ascii_def sublist_code)
  have cc: "create_completion env_gpt_db_down (length (gpt_calls init))
     (\<lparr>role = ascii ''system'', content = SYSTEM_PROMPT\<rparr> #
      context_of [117] (update_context [117] (ascii ''user'') (ascii ''hi'') init)) = None"
    by (simp add: env_gpt_db_down_def env_gpt_down_def env_up_def)
  have reply: "fst (ask_gpt env_gpt_db_down [117] (ascii ''hi'') init) = FALLBACK_REPLY"
    using cc by (simp add: ask_gpt_reply)
  have lc: "log_conversation env_gpt_db_down [117]
              (snd (ask_gpt env_gpt_db_down [117] (ascii ''hi'') init)) =
            (Raised SQLAlchemyError,
             (snd (ask_gpt env_gpt_db_down [117] (ascii ''hi'') init))
               \<lparr>commits := commits (snd (ask_gpt env_gpt_db_down [117] (ascii ''hi'') init)) + 1,
                selects := selects (snd (ask_gpt env_gpt_db_down [117] (ascii ''hi'') init)) + 1\<rparr>)"
    by (rule log_conversation_commit_raises)
       (simp_all add: env_gpt_db_down_def env_gpt_down_def env_up_def)
  have pm: "process_message env_gpt_db_down [117] (ascii ''hi'') init =
              (Raised SQLAlchemyError,
               snd (log_conversation env_gpt_db_down [117]
                      (snd (ask_gpt env_gpt_db_down [117] (ascii ''hi'') init))))"
    by (rule process_message_raises [OF nt]) (simp add: lc)
  have o: "outbox (snd (process_message env_gpt_db_down [117] (ascii ''hi'') init)) = []"
    unfolding pm by (simp add: log_conversation_frame ask_gpt_frame init_def)
  have u: "users (snd (process_message env_gpt_db_down [117] (ascii ''hi'') init)) = users init"
    by (simp add: pm lc ask_gpt_frame)
  have c: "counter (snd (process_message env_gpt_db_down [117] (ascii ''hi'') init)) [117] = 0"
    unfolding counter_def u by (simp add: init_def)
  have r: "fst (process_message env_gpt_db_down [117] (ascii ''hi'') init) =
             Raised SQLAlchemyError"
    unfolding pm by simp
  from nt cc reply r o c show ?thesis by blast
qed

text \<open>
  Claim C6. For a text without trigger phrase that \<open>process_message\<close> dispatches
  successfully, that is, it returns, which it does exactly when the SELECT and the commit
  of its \<open>log_conversation\<close> both succeed: the \<open>users\<close> table is left as one
  \<open>log_conversation\<close> leaves it, the counter of the user is one higher, a user without a
  row gets the row with counter 1, and the row of every other user is as before.
\<close>

theorem usage_counter_increment:
  assumes "\<not> (\<exists>k \<in> set TRIGGERS. sublist k (str_lower e txt))"
    and "fst (process_message e u txt w) = Returned ()"
  shows "fst (log_conversation e u w) = Returned () \<and>
         get_raises e (selects w) u = None \<and> commit_raises e (commits w) = None \<and>
         counter (snd (process_message e u txt w)) u = counter w u + 1 \<and>
         (users w u = None \<longrightarrow>
            users (snd (process_message e u txt w)) u =
              Some \<lparr>user_id = u, created_at = Some (utcnow e (commits w)), messages = Some 1\<rparr>) \<and>
         (\<forall>v. v \<noteq> u \<longrightarrow> users (snd (process_message e u txt w)) v = users w v) \<and>
         users (snd (process_message e u txt w)) = users (snd (log_conversation e u w))"
proof -
  have nt: "\<not> is_trigger e txt"
    using assms(1) by (simp add: is_trigger_iff)
  let ?w1 = "snd (ask_gpt e u txt w)"
  have ok1: "fst (log_conversation e u ?w1) = Returned ()"
  proof (cases "fst (log_conversation e u ?w1)")
    case (Returned v)
    then show ?thesis by simp
  next
    case (Raised x)
    then show ?thesis
      using assms(2) by (simp add: process_message_raises [OF nt Raised])
  qed
  have eqs: "users ?w1 = users w" "selects ?w1 = selects w" "commits ?w1 = commits w"
    by (simp_all add: ask_gpt_frame)
  have ok: "fst (log_conversation e u w) = Returned ()"
    using ok1 log_conversation_same_tables(1) [OF eqs] by simp
  have g: "get_raises e (selects w) u = None" and c: "commit_raises e (commits w) = None"
    using ok by (simp_all add: log_conversation_Returned_iff)
  have us: "users (snd (process_message e u txt w)) = users (snd (log_conversation e u ?w1))"
    by (simp add: process_message_ok [OF nt ok1] send_message_frame)
  have same: "users (snd (log_conversation e u ?w1)) = users (snd (log_conversation e u w))"
    using log_conversation_same_tables(2) [OF eqs] by simp
  have cnt: "counter (snd (process_message e u txt w)) u = counter w u + 1"
    using counter_log_conversation [OF ok, of u] us same by (simp add: counter_def)
  have row: "users (snd (log_conversation e u w)) =
     (users w)(u \<mapsto>
           (case users w u of
              None \<Rightarrow> \<lparr>user_id = u, created_at = Some (utcnow e (commits w)), messages = Some 1\<rparr>
            | Some r \<Rightarrow> r\<lparr>messages := Some ((case messages r of None \<Rightarrow> 0 | Some m \<Rightarrow> m) + 1),
                          created_at := (case created_at r of None \<Rightarrow> Some (utcnow e (commits w))
                                          | Some t \<Rightarrow> Some t)\<rparr>))"
    by (simp add: log_conversation_ok [OF g c])
  have new: "users w u = None \<longrightarrow>
            users (snd (process_message e u txt w)) u =
              Some \<lparr>user_id = u, created_at = Some (utcnow e (commits w)), messages = Some 1\<rparr>"
    by (simp add: us same row)
  have others: "\<forall>v. v \<noteq> u \<longrightarrow> users (snd (process_message e u txt w)) v = users w v"
    by (simp add: us same row)
  from ok g c cnt new others us same show ?thesis by simp
qed

text \<open>User \<open>u\<close> writes \<open>hi\<close> at start-up, with the completion endpoint and the database
  up.\<close>

theorem usage_counter_increment_witness:
  "\<not> (\<exists>k \<in> set TRIGGERS. sublist k (str_lower env_up (ascii ''hi''))) \<and>
   fst (process_message env_up [117] (ascii ''hi'') init) = Returned () \<and>
   users init [117] = None \<and>
   counter (snd (process_message env_up [117] (ascii ''hi'') init)) [117] = 1 \<and>
   users (snd (process_message env_up [117] (ascii ''hi'') init)) [117] =
     Some \<lparr>user_id = [117], created_at = Some 1000, messages = Some 1\<rparr> \<and>
   users (snd (process_message env_up [117] (ascii ''hi'') init)) [118] = None"
proof -
  have h1: "\<not> (\<exists>k \<in> set TRIGGERS. sublist k (str_lower env_up (ascii ''hi'')))"
    by (simp add: TRIGGERS_def env_up_def ascii_def sublist_code)
  have nt: "\<not> is_trigger env_up (ascii ''hi'')"
    using h1 by (simp add: is_trigger_iff)
  have lc: "fst (log_conversation env_up [117]
                   (snd (ask_gpt env_up [117] (ascii ''hi'') init))) = Returned ()"
    by (simp add: log_conversation_Returned_iff env_up_def)
  have h2: "fst (process_message env_up [117] (ascii ''hi'') init) = Returned ()"
    by (simp add: process_message_ok [OF nt lc])
  show ?thesis
    using h1 h2 usage_counter_increment [OF h1 h2]
    by (simp add: init_def counter_def env_up_def log_conversation_def Let_def)
qed

lemma deque_append_keeps:
  assumes "length zs < n"
  shows "\<exists>xs. deque_append n (ys @ zs) x = xs @ zs @ [x]"
proof (cases "n < length (ys @ zs @ [x])")
  case True
  then have "ys \<noteq> []" using assms by auto
  then have "deque_append n (ys @ zs) x = tl ys @ zs @ [x]"
    using True by (simp add: deque_append_def Let_def)
  then show ?thesis by blast
next
  case False
  then have "deque_append n (ys @ zs) x = ys @ zs @ [x]"
    by (simp add: deque_append_def Let_def)
  then show ?thesis by blast
qed

lemma deque_append_twice_ends:
  assumes "2 \<le> n"
  shows "\<exists>xs. deque_append n (deque_append n d a) b = xs @ [a, b]"
proof -
  obtain ys where ys: "deque_append n d a = ys @ [a]"
    using deque_append_keeps [of "[]" n d a] assms by auto
  obtain xs where "deque_append n (ys @ [a]) b = xs @ [a] @ [b]"
    using deque_append_keeps [of "[a]" n ys b] assms by auto
  then show ?thesis using ys by auto
qed

lemma deque_append_thrice_ends:
  assumes "3 \<le> n"
  shows "\<exists>xs. deque_append n (deque_append n (deque_append n d a) b) c = xs @ [a, b, c]"
proof -
  obtain ys where ys: "deque_append n (deque_append n d a) b = ys @ [a, b]"
    using deque_append_twice_ends [of n d a b] assms by auto
  obtain xs where "deque_append n (ys @ [a, b]) c = xs @ [a, b] @ [c]"
    using deque_append_keeps [of "[a, b]" n ys c] assms by auto
  then show ?thesis using ys by auto
qed

lemma context_of_update_context:
  "context_of v (update_context u r c w) =
     (if u = v then deque_append CONTEXT_LIMIT (context_of v w) \<lparr>role = r, content = c\<rparr>
      else context_of v w)"
  using get_context_update_context [of v u r c w] by (simp add: context_of_def)

lemma context_of_gpt_calls_update: "context_of v (w\<lparr>gpt_calls := g\<rparr>) = context_of v w"
  by (simp add: context_of_def get_context_def)

lemma ask_gpt_context:
  "context_of v (snd (ask_gpt e u m w)) =
     (if u = v
      then deque_append CONTEXT_LIMIT
             (deque_append CONTEXT_LIMIT (context_of v w) \<lparr>role = ascii ''user'', content = m\<rparr>)
             \<lparr>role = ascii ''assistant'', content = fst (ask_gpt e u m w)\<rparr>
      else context_of v w)"
  by (simp add: ask_gpt_world context_of_update_context context_of_gpt_calls_update)

lemma ask_gpt_gpt_calls:
  "gpt_calls (snd (ask_gpt e u m w)) =
     gpt_calls w @ [\<lparr>role = ascii ''system'', content = SYSTEM_PROMPT\<rparr> #
                    deque_append CONTEXT_LIMIT (context_of u w) \<lparr>role = ascii ''user'', content = m\<rparr>]"
  by (simp add: ask_gpt_world update_context_frame context_of_update_context)

text \<open>
  Claim C10. Every call of \<open>ask_gpt\<close> appends two turns to the context of the user, first
  the user's text and then the reply it returns, so afterwards the context ends with these
  two turns. When the completion call fails, the reply is the fallback string, and the
  next call of \<open>ask_gpt\<close> for the user sends a message list that ends with the earlier user
  turn, the fallback as an assistant turn, and the new user turn.
\<close>

theorem ask_gpt_appends_two_turns:
  "context_of uid (snd (ask_gpt e uid m w)) =
     deque_append 10
       (deque_append 10 (context_of uid w) \<lparr>role = ascii ''user'', content = m\<rparr>)
       \<lparr>role = ascii ''assistant'', content = fst (ask_gpt e uid m w)\<rparr> \<and>
   (\<exists>xs. context_of uid (snd (ask_gpt e uid m w)) =
           xs @ [\<lparr>role = ascii ''user'', content = m\<rparr>,
                 \<lparr>role = ascii ''assistant'', content = fst (ask_gpt e uid m w)\<rparr>]) \<and>
   (create_completion e (length (gpt_calls w))
      (\<lparr>role = ascii ''system'', content = SYSTEM_PROMPT\<rparr> #
       context_of uid (update_context uid (ascii ''user'') m w)) = None \<longrightarrow>
    fst (ask_gpt e uid m w) = FALLBACK_REPLY \<and>
    (\<exists>xs. last (gpt_calls (snd (ask_gpt e' uid m' (snd (ask_gpt e uid m w))))) =
            \<lparr>role = ascii ''system'', content = SYSTEM_PROMPT\<rparr> #
            xs @ [\<lparr>role = ascii ''user'', content = m\<rparr>,
                  \<lparr>role = ascii ''assistant'', content = FALLBACK_REPLY\<rparr>,
                  \<lparr>role = ascii ''user'', content = m'\<rparr>]))"
proof -
  let ?u = "\<lparr>role = ascii ''user'', content = m\<rparr>"
  let ?a = "\<lparr>role = ascii ''assistant'', content = fst (ask_gpt e uid m w)\<rparr>"
  let ?w1 = "snd (ask_gpt e uid m w)"
  have ctx: "context_of uid ?w1 = deque_append 10 (deque_append 10 (context_of uid w) ?u) ?a"
    by (simp add: ask_gpt_context CONTEXT_LIMIT_def)
  have two: "\<exists>xs. context_of uid ?w1 = xs @ [?u, ?a]"
    using deque_append_twice_ends [of 10 "context_of uid w" ?u ?a] by (simp add: ctx)
  have sent: "last (gpt_calls (snd (ask_gpt e' uid m' ?w1))) =
                \<lparr>role = ascii ''system'', content = SYSTEM_PROMPT\<rparr> #
                deque_append 10 (context_of uid ?w1) \<lparr>role = ascii ''user'', content = m'\<rparr>"
    by (simp add: ask_gpt_gpt_calls CONTEXT_LIMIT_def)
  have three: "\<exists>xs. deque_append 10 (context_of uid ?w1) \<lparr>role = ascii ''user'', content = m'\<rparr> =
                 xs @ [?u, ?a, \<lparr>role = ascii ''user'', content = m'\<rparr>]"
    using deque_append_thrice_ends [of 10 "context_of uid w" ?u ?a
            "\<lparr>role = ascii ''user'', content = m'\<rparr>"]
    by (simp add: ctx)
  have fail: "fst (ask_gpt e uid m w) = FALLBACK_REPLY"
    if "create_completion e (length (gpt_calls w))
          (\<lparr>role = ascii ''system'', content = SYSTEM_PROMPT\<rparr> #
           context_of uid (update_context uid (ascii ''user'') m w)) = None"
    using that by (simp add: ask_gpt_reply)
  show ?thesis
    using ctx two sent three fail by auto
qed

theorem ask_gpt_appends_two_turns_witness:
  "create_completion env_gpt_down (length (gpt_calls init))
      (\<lparr>role = ascii ''system'', content = SYSTEM_PROMPT\<rparr> #
       context_of [117] (update_context [117] (ascii ''user'') (ascii ''hi'') init)) = None \<and>
   fst (ask_gpt env_gpt_down [117] (ascii ''hi'') init) = FALLBACK_REPLY \<and>
   context_of [117] (snd (ask_gpt env_gpt_down [117] (ascii ''hi'') init)) =
     [\<lparr>role = ascii ''user'', content = ascii ''hi''\<rparr>,
      \<lparr>role = ascii ''assistant'', content = FALLBACK_REPLY\<rparr>] \<and>
   last (gpt_calls (snd (ask_gpt env_up [117] (ascii ''again'')
                           (snd (ask_gpt env_gpt_down [117] (ascii ''hi'') init))))) =
     [\<lparr>role = ascii ''system'', content = SYSTEM_PROMPT\<rparr>,
      \<lparr>role = ascii ''user'', content = ascii ''hi''\<rparr>,
      \<lparr>role = ascii ''assistant'', content = FALLBACK_REPLY\<rparr>,
      \<lparr>role = ascii ''user'', content = ascii ''again''\<rparr>]"
proof -
  have h: "create_completion env_gpt_down (length (gpt_calls init))
      (\<lparr>role = ascii ''system'', content = SYSTEM_PROMPT\<rparr> #
       context_of [117] (update_context [117] (ascii ''user'') (ascii ''hi'') init)) = None"
    by (simp add: env_gpt_down_def env_up_def)
  have c0: "context_of [117] init = []"
    by (simp add: context_of_def get_context_init)
  have r: "fst (ask_gpt env_gpt_down [117] (ascii ''hi'') init) = FALLBACK_REPLY"
    using h ask_gpt_appends_two_turns [of "[117]" env_gpt_down "ascii ''hi''" init] by simp
  have c1: "context_of [117] (snd (ask_gpt env_gpt_down [117] (ascii ''hi'') init)) =
     [\<lparr>role = ascii ''user'', content = ascii ''hi''\<rparr>,
      \<lparr>role = ascii ''assistant'', content = FALLBACK_REPLY\<rparr>]"
    using ask_gpt_appends_two_turns [of "[117]" env_gpt_down "ascii ''hi''" init]
    by (simp add: c0 r deque_append_def)
  show ?thesis
    using h r c1
    by (simp add: ask_gpt_gpt_calls CONTEXT_LIMIT_def deque_append_def)
qed

section \<open>Properties of the webhook\<close>

text \<open>
  Claim C8. A verification request whose \<open>hub.verify_token\<close> equals the configured secret
  is answered with status 200 and the supplied \<open>hub.challenge\<close> as body (the empty body
  when none is supplied); every other request is answered with status 403 and the body
  \<open>Invalid token\<close>. So the status is 200 exactly when the token matches.
\<close>

theorem verify_webhook_token:
  "(args (ascii ''hub.verify_token'') = Some (VERIFY_TOKEN e) \<longrightarrow>
      verify_webhook e args =
        ((case args (ascii ''hub.challenge'') of None \<Rightarrow> [] | Some c \<Rightarrow> c), 200)) \<and>
   (args (ascii ''hub.verify_token'') \<noteq> Some (VERIFY_TOKEN e) \<longrightarrow>
      verify_webhook e args = (ascii ''Invalid token'', 403)) \<and>
   (snd (verify_webhook e args) = 200 \<longleftrightarrow>
      args (ascii ''hub.verify_token'') = Some (VERIFY_TOKEN e))"
  by (simp add: verify_webhook_def)

theorem verify_webhook_token_witness:
  "[ascii ''hub.verify_token'' \<mapsto> ascii ''s3cret'', ascii ''hub.challenge'' \<mapsto> ascii ''1158201444'']
     (ascii ''hub.verify_token'') = Some (VERIFY_TOKEN env_up) \<and>
   verify_webhook env_up
     [ascii ''hub.verify_token'' \<mapsto> ascii ''s3cret'', ascii ''hub.challenge'' \<mapsto> ascii ''1158201444'']
     = (ascii ''1158201444'', 200) \<and>
   [ascii ''hub.verify_token'' \<mapsto> ascii ''guess'', ascii ''hub.challenge'' \<mapsto> ascii ''1158201444'']
     (ascii ''hub.verify_token'') \<noteq> Some (VERIFY_TOKEN env_up) \<and>
   verify_webhook env_up
     [ascii ''hub.verify_token'' \<mapsto> ascii ''guess'', ascii ''hub.challenge'' \<mapsto> ascii ''1158201444'']
     = (ascii ''Invalid token'', 403) \<and>
   Map.empty (ascii ''hub.verify_token'') \<noteq> Some (VERIFY_TOKEN env_up) \<and>
   verify_webhook env_up Map.empty = (ascii ''Invalid token'', 403)"
  using verify_webhook_token [of "[ascii ''hub.verify_token'' \<mapsto> ascii ''s3cret'', ascii ''hub.challenge'' \<mapsto> ascii ''1158201444'']" env_up]
    verify_webhook_token [of "[ascii ''hub.verify_token'' \<mapsto> ascii ''guess'', ascii ''hub.challenge'' \<mapsto> ascii ''1158201444'']" env_up]
    verify_webhook_token [of Map.empty env_up]
  by (simp add: env_up_def ascii_def)

section \<open>Properties of the event loop\<close>


lemma handle_event_unfold:
  "handle_event e ev w =
     or_raise (py_get ev (ascii ''sender'') (JObj [])) w (\<lambda>sender.
     or_raise (py_get sender (ascii ''id'') JNull) w (\<lambda>uid.
     or_raise (py_get ev (ascii ''message'') (JObj [])) w (\<lambda>msg.
     guarded_body e uid msg w)))"
  unfolding handle_event_def guarded_body_def ..

lemma or_raise_simps:
  "or_raise (Inr v) w k = k v"
  "or_raise (Inl x) w k = (Raised x, w)"
  by (simp_all add: or_raise_def)


lemma guarded_body_no_text:
  "map_of ms (ascii ''text'') = None \<Longrightarrow> guarded_body e uid (JObj ms) w = (Returned (), w)"
  by (simp add: guarded_body_def or_raise_simps)

lemma guarded_body_quick_reply:
  assumes "truthy uid" and "map_of ms (ascii ''text'') = Some t"
    and "map_of ms (ascii ''quick_reply'') = Some (JObj qs)"
    and "map_of qs (ascii ''payload'') = Some p"
  shows "guarded_body e uid (JObj ms) w =
           (if p = JStr (ascii ''HUMAN_SUPPORT'') then
              (case uid of
                 JStr u \<Rightarrow> (Returned (), send_message u HUMAN_SUPPORT_NOTICE None w)
               | _ \<Rightarrow> (Raised OutsideModel, w))
            else if p = JStr (ascii ''SERVICE_INFO'') then
              (case uid of
                 JStr u \<Rightarrow> (Returned (), send_message u SERVICE_INFO_NOTICE None w)
               | _ \<Rightarrow> (Raised OutsideModel, w))
            else (Returned (), w))"
proof -
  have "qs \<noteq> []" using assms(4) by auto
  then show ?thesis
    using assms by (simp add: guarded_body_def or_raise_simps)
qed















text \<open>
  Claim C9. An event whose message object has no \<open>text\<close> field changes nothing: no send,
  no completion call, no context change, no counter change, whatever else the message
  carries, a recognised quick-reply payload included. When the sender is absent or an
  object, the loop body returns normally and the loop goes on to the next event.
\<close>

theorem event_without_text_skipped:
  assumes "map_of evs (ascii ''message'') = Some (JObj ms)"
    and "map_of ms (ascii ''text'') = None"
  shows "snd (handle_event e (JObj evs) w) = w \<and>
         (map_of evs (ascii ''sender'') = None \<or>
          (\<exists>ss. map_of evs (ascii ''sender'') = Some (JObj ss)) \<longrightarrow>
          handle_event e (JObj evs) w = (Returned (), w))"
proof -
  let ?s = "case map_of evs (ascii ''sender'') of None \<Rightarrow> JObj [] | Some v \<Rightarrow> v"
  have he: "handle_event e (JObj evs) w =
              or_raise (py_get ?s (ascii ''id'') JNull) w (\<lambda>uid. (Returned (), w))"
    using assms by (simp add: handle_event_unfold or_raise_simps guarded_body_no_text)
  have unchanged: "snd (handle_event e (JObj evs) w) = w"
    by (cases "py_get ?s (ascii ''id'') JNull") (simp_all add: he or_raise_simps)
  have "handle_event e (JObj evs) w = (Returned (), w)"
    if "map_of evs (ascii ''sender'') = None \<or>
        (\<exists>ss. map_of evs (ascii ''sender'') = Some (JObj ss))"
    using that by (auto simp: he or_raise_simps)
  with unchanged show ?thesis by blast
qed

text \<open>An event with the quick-reply payload \<open>SERVICE_INFO\<close> and no text, at start-up.\<close>

theorem event_without_text_skipped_witness:
  "map_of [(ascii ''sender'', JObj [(ascii ''id'', JStr [118])]),
           (ascii ''message'',
            JObj [(ascii ''quick_reply'', JObj [(ascii ''payload'', JStr (ascii ''SERVICE_INFO''))])])]
     (ascii ''message'') =
     Some (JObj [(ascii ''quick_reply'', JObj [(ascii ''payload'', JStr (ascii ''SERVICE_INFO''))])]) \<and>
   map_of [(ascii ''quick_reply'', JObj [(ascii ''payload'', JStr (ascii ''SERVICE_INFO''))])]
     (ascii ''text'') = None \<and>
   handle_event env_up
     (event [118] [(ascii ''quick_reply'', JObj [(ascii ''payload'', JStr (ascii ''SERVICE_INFO''))])])
     init = (Returned (), init)"
proof -
  let ?ms = "[(ascii ''quick_reply'', JObj [(ascii ''payload'', JStr (ascii ''SERVICE_INFO''))])]"
  let ?evs = "[(ascii ''sender'', JObj [(ascii ''id'', JStr [118])]), (ascii ''message'', JObj ?ms)]"
  have h1: "map_of ?evs (ascii ''message'') = Some (JObj ?ms)"
    by (simp add: ascii_def)
  have h2: "map_of ?ms (ascii ''text'') = None"
    by (simp add: ascii_def)
  have h3: "map_of ?evs (ascii ''sender'') = Some (JObj [(ascii ''id'', JStr [118])])"
    by simp
  show ?thesis
    using h1 h2 h3 event_without_text_skipped [OF h1 h2, of env_up init]
    by (simp add: event_def)
qed

text \<open>
  Claim C4, as amended. For an event whose sender id is a non-empty string and whose message
  carries a \<open>text\<close> field and a quick-reply payload: payload \<open>HUMAN_SUPPORT\<close> causes exactly
  one send, the human-support notice; payload \<open>SERVICE_INFO\<close> causes exactly one send, the
  service-info notice; any other payload causes no send and no state change. In all three
  cases no completion call is made and contexts and counters are as before.
\<close>

theorem quick_reply_dispatch:
  assumes "map_of evs (ascii ''sender'') = Some (JObj ss)"
    and "map_of ss (ascii ''id'') = Some (JStr u)"
    and "u \<noteq> []"
    and "map_of evs (ascii ''message'') = Some (JObj ms)"
    and "map_of ms (ascii ''text'') = Some t"
    and "map_of ms (ascii ''quick_reply'') = Some (JObj qs)"
    and "map_of qs (ascii ''payload'') = Some p"
  shows "handle_event e (JObj evs) w =
           (Returned (),
            if p = JStr (ascii ''HUMAN_SUPPORT'')
            then w\<lparr>outbox := outbox w @
                     [\<lparr>recipient_id = u, message_text = HUMAN_SUPPORT_NOTICE,
                       quick_replies = None\<rparr>]\<rparr>
            else if p = JStr (ascii ''SERVICE_INFO'')
            then w\<lparr>outbox := outbox w @
                     [\<lparr>recipient_id = u, message_text = SERVICE_INFO_NOTICE,
                       quick_replies = None\<rparr>]\<rparr>
            else w) \<and>
         gpt_calls (snd (handle_event e (JObj evs) w)) = gpt_calls w \<and>
         user_contexts (snd (handle_event e (JObj evs) w)) = user_contexts w \<and>
         users (snd (handle_event e (JObj evs) w)) = users w"
proof -
  have tr: "truthy (JStr u)" using assms(3) by simp
  have "handle_event e (JObj evs) w = guarded_body e (JStr u) (JObj ms) w"
    using assms(1,2,4) by (simp add: handle_event_unfold or_raise_simps)
  then show ?thesis
    using guarded_body_quick_reply [OF tr assms(5,6,7), of e w]
    by (simp add: send_message_def)
qed

text \<open>The three cases for user \<open>u\<close> at start-up.\<close>

theorem quick_reply_dispatch_witness:
  "handle_event env_up
     (event [117] [(ascii ''text'', JStr [65]),
                   (ascii ''quick_reply'', JObj [(ascii ''payload'', JStr (ascii ''HUMAN_SUPPORT''))])])
     init =
     (Returned (),
      init\<lparr>outbox := [\<lparr>recipient_id = [117], message_text = HUMAN_SUPPORT_NOTICE,
                        quick_replies = None\<rparr>]\<rparr>) \<and>
   handle_event env_up
     (event [117] [(ascii ''text'', JStr [65]),
                   (ascii ''quick_reply'', JObj [(ascii ''payload'', JStr (ascii ''SERVICE_INFO''))])])
     init =
     (Returned (),
      init\<lparr>outbox := [\<lparr>recipient_id = [117], message_text = SERVICE_INFO_NOTICE,
                        quick_replies = None\<rparr>]\<rparr>) \<and>
   handle_event env_up
     (event [117] [(ascii ''text'', JStr [65]),
                   (ascii ''quick_reply'', JObj [(ascii ''payload'', JStr (ascii ''OTHER''))])])
     init = (Returned (), init)"
proof -
  have w: "handle_event env_up
     (event [117] [(ascii ''text'', JStr [65]),
                   (ascii ''quick_reply'', JObj [(ascii ''payload'', p)])]) init =
     (Returned (),
            if p = JStr (ascii ''HUMAN_SUPPORT'')
            then init\<lparr>outbox := outbox init @
                     [\<lparr>recipient_id = [117], message_text = HUMAN_SUPPORT_NOTICE,
                       quick_replies = None\<rparr>]\<rparr>
            else if p = JStr (ascii ''SERVICE_INFO'')
            then init\<lparr>outbox := outbox init @
                     [\<lparr>recipient_id = [117], message_text = SERVICE_INFO_NOTICE,
                       quick_replies = None\<rparr>]\<rparr>
            else init)" for p
    using quick_reply_dispatch [of
        "[(ascii ''sender'', JObj [(ascii ''id'', JStr [117])]),
          (ascii ''message'', JObj [(ascii ''text'', JStr [65]),
                   (ascii ''quick_reply'', JObj [(ascii ''payload'', p)])])]"
        "[(ascii ''id'', JStr [117])]" "[117]"
        "[(ascii ''text'', JStr [65]), (ascii ''quick_reply'', JObj [(ascii ''payload'', p)])]"
        "JStr [65]" "[(ascii ''payload'', p)]" p env_up init]
    by (simp add: event_def ascii_def)
  show ?thesis
    using w [of "JStr (ascii ''HUMAN_SUPPORT'')"] w [of "JStr (ascii ''SERVICE_INFO'')"]
      w [of "JStr (ascii ''OTHER'')"]
    by (simp add: init_def ascii_def)
qed

text \<open>The claim as stated, for every event carrying a quick-reply payload, fails on an
  event that carries the payload \<open>HUMAN_SUPPORT\<close> and no \<open>text\<close> field: nothing is sent.\<close>

theorem quick_reply_dispatch_counterexample:
  "handle_event env_up
     (event [117] [(ascii ''quick_reply'', JObj [(ascii ''payload'', JStr (ascii ''HUMAN_SUPPORT''))])])
     init = (Returned (), init) \<and>
   outbox (snd (handle_event env_up
     (event [117] [(ascii ''quick_reply'', JObj [(ascii ''payload'', JStr (ascii ''HUMAN_SUPPORT''))])])
     init)) = []"
proof -
  have "handle_event env_up
     (event [117] [(ascii ''quick_reply'', JObj [(ascii ''payload'', JStr (ascii ''HUMAN_SUPPORT''))])])
     init = (Returned (), init)"
    by (simp add: event_def handle_event_unfold or_raise_simps guarded_body_def ascii_def)
  then show ?thesis by (simp add: init_def)
qed










end
